theory Spec2Isabelle
  imports Complex_Main
begin

section \<open>Identifiers (shared string utilities: generateId)\<close>

text \<open>
  \<^verbatim>\<open>generateId(prefix = '', length = 8)\<close> appends, \<open>length\<close> times, the character
  \<^verbatim>\<open>chars.charAt(Math.floor(Math.random() * chars.length))\<close> and returns
  \<^verbatim>\<open>prefix ? `${prefix}_${result}` : result\<close>.  The random source is an input of the model:
  \<open>rnd i\<close> is the value of \<^verbatim>\<open>Math.floor(Math.random() * chars.length)\<close> in iteration \<open>i\<close>
  (a number below 62, since \<^verbatim>\<open>Math.random()\<close> lies in [0, 1)).
\<close>

definition chars :: string where
  "chars = ''ABCDEFGHIJKLMNOPQRSTUVWXYZabcdefghijklmnopqrstuvwxyz0123456789''"

definition charAt :: "string \<Rightarrow> nat \<Rightarrow> string" where
  "charAt s i = (if i < length s then [s ! i] else [])"

definition generateId :: "string \<Rightarrow> nat \<Rightarrow> (nat \<Rightarrow> nat) \<Rightarrow> string" where
  "generateId prefix len rnd =
     (let result = foldl (\<lambda>result i. result @ charAt chars (rnd i)) [] [0..<len]
      in if prefix \<noteq> [] then prefix @ ''_'' @ result else result)"

section \<open>Data model (chat service)\<close>

text \<open>
  Timestamps are \<^verbatim>\<open>new Date().toISOString()\<close>: the clock reading in milliseconds, printed
  in a fixed-width format whose string order is the order of the instants.  The model keeps
  the clock reading itself.
\<close>

type_synonym iso_time = nat

datatype role = User | Assistant

record SourceRef =
  sr_id :: string
  sr_title :: string
  sr_excerpt :: string
  sr_relevance :: real
  sr_source :: string

record MessageMetadata =
  mm_tokensUsed :: nat
  mm_processingTime :: int
  mm_sources :: "SourceRef list"

record ChatMessage =
  cm_id :: string
  cm_sessionId :: string
  cm_role :: role
  cm_content :: string
  cm_timestamp :: iso_time
  cm_metadata :: "MessageMetadata option"

record ChatSession =
  cs_id :: string
  cs_userId :: string
  cs_title :: string
  cs_createdAt :: iso_time
  cs_updatedAt :: iso_time
  cs_isActive :: bool
  cs_metadata :: "(string \<times> string) list option"

record ResponseMetadata =
  rm_tokensUsed :: nat
  rm_processingTime :: int
  rm_confidence :: real

record ChatResponse =
  cr_message :: string
  cr_sessionId :: string
  cr_sources :: "SourceRef list option"
  cr_metadata :: "ResponseMetadata option"

record 'a PaginatedResult =
  pr_items :: "'a list"
  pr_lastEvaluatedKey :: "iso_time option"
  pr_count :: nat

text \<open>Search hits as \<^verbatim>\<open>formatSearchResponse\<close> shapes them (\<^verbatim>\<open>_source: true\<close> is requested).\<close>

record HitSource =
  hs_title :: "string option"
  hs_content :: "string option"
  hs_source :: "string option"

record SearchHit =
  sh_id :: string
  sh_score :: real
  sh_source :: HitSource

record BedrockMessage =
  bm_role :: role
  bm_content :: string

record BedrockResponse =
  br_content :: string
  br_inputTokens :: nat
  br_outputTokens :: nat

section \<open>Errors\<close>

text \<open>
  Every \<^verbatim>\<open>throw\<close> of the services is a value.  \<open>AppError code message status\<close> and
  \<open>NotFoundError resource identifier\<close> are the classes of that name; the other constructors
  are the plain \<^verbatim>\<open>Error\<close>s the client wrappers raise around a failed call
  (\<^verbatim>\<open>Failed to get item from T\<close>, \<^verbatim>\<open>Failed to put item in T\<close>,
  \<^verbatim>\<open>Failed to update item in T\<close>, \<^verbatim>\<open>Failed to query T\<close>,
  \<^verbatim>\<open>Bedrock chat invocation failed\<close>,
  \<^verbatim>\<open>Failed to parse violation analysis response\<close>), and the \<^verbatim>\<open>TypeError\<close> of a
  property read on \<^verbatim>\<open>null\<close>.
\<close>

datatype error =
    AppError string string nat
  | NotFoundError string string
  | GetFailed string
  | PutFailed string
  | UpdateFailed string
  | QueryFailed string
  | ChatInvocationFailed
  | ParseFailed
  | TypeError

section \<open>The stores\<close>

text \<open>
  The analysis result document and the documents table (analysis service).  A JSON value is
  what \<^verbatim>\<open>JSON.parse\<close> returns; the fields of the response are whatever the parsed value
  holds under the four property names (\<open>None\<close> is \<^verbatim>\<open>undefined\<close>).
\<close>

datatype json =
    JNull
  | JBool bool
  | JNum real
  | JStr string
  | JArr "json list"
  | JObj "(string \<times> json) list"

record AnalysisResponse =
  ar_violations :: "json option"
  ar_summary :: "json option"
  ar_riskScore :: "json option"
  ar_recommendations :: "json option"
  ar_processingTime :: int

record Document =
  d_title :: "string option"
  d_contentType :: "string option"
  d_tags :: "string list option"
  d_analysisResult :: "AnalysisResponse option"
  d_analysisTimestamp :: "iso_time option"

text \<open>
  The tables and the search index the services write.  The chat-messages table has the
  key schema (sessionId HASH, timestamp RANGE); its items are kept as a list in which a
  primary key occurs once (\<open>table_ok\<close>).  The chat-sessions and documents tables are
  keyed by id, and so is the chat-context index.
\<close>

record world =
  chat_sessions :: "string \<rightharpoonup> ChatSession"
  chat_messages :: "ChatMessage list"
  documents :: "string \<rightharpoonup> Document"
  chat_context :: "string \<rightharpoonup> (ChatMessage \<times> real list)"

definition msg_key :: "ChatMessage \<Rightarrow> string \<times> iso_time" where
  "msg_key m = (cm_sessionId m, cm_timestamp m)"

definition table_ok :: "world \<Rightarrow> bool" where
  "table_ok w = distinct (map msg_key (chat_messages w))"

text \<open>
  PutItem creates the item or replaces the item that has the same primary key.  The
  services pass no condition expression.
\<close>

definition put_chat_message :: "world \<Rightarrow> ChatMessage \<Rightarrow> world" where
  "put_chat_message w m =
     w\<lparr>chat_messages := filter (\<lambda>x. msg_key x \<noteq> msg_key m) (chat_messages w) @ [m]\<rparr>"

definition put_chat_session :: "world \<Rightarrow> ChatSession \<Rightarrow> world" where
  "put_chat_session w s = w\<lparr>chat_sessions := (chat_sessions w)(cs_id s \<mapsto> s)\<rparr>"

text \<open>
  \<^verbatim>\<open>DynamoDBService.update(tableName, key, updates)\<close> sends
  \<^verbatim>\<open>new UpdateCommand({TableName, Key: key, ReturnValues: 'ALL_NEW', ...updates})\<close>.  The
  members of \<open>updates\<close> are named \<^verbatim>\<open>updateExpression\<close> and
  \<^verbatim>\<open>expressionAttributeValues\<close>; the members of an UpdateItem request are named
  \<^verbatim>\<open>UpdateExpression\<close> and \<^verbatim>\<open>ExpressionAttributeValues\<close>.  The spread therefore
  adds members the request does not have, and the request goes out without an update
  expression.  The SET expression together with its values is kept as the function it
  denotes on an item.
\<close>

record 'v UpdateCommandInput =
  uc_Key :: string
  uc_UpdateExpression :: "('v \<Rightarrow> 'v) option"
  uc_spread_updateExpression :: "('v \<Rightarrow> 'v) option"

definition update_command :: "string \<Rightarrow> ('v \<Rightarrow> 'v) \<Rightarrow> 'v UpdateCommandInput" where
  "update_command key updates =
     \<lparr>uc_Key = key, uc_UpdateExpression = None, uc_spread_updateExpression = Some updates\<rparr>"

text \<open>
  UpdateItem applies the update expression of the request to the item under the key; a
  request without one leaves the item as it is.  Where no item is under the key, the item
  is created from the key alone (\<open>key_only\<close>; \<open>None\<close> for a table whose callers have read
  the item under the key just before).
\<close>

definition UpdateItem ::
  "(string \<rightharpoonup> 'v) \<Rightarrow> 'v option \<Rightarrow> 'v UpdateCommandInput \<Rightarrow> (string \<rightharpoonup> 'v)" where
  "UpdateItem table key_only command =
     (let apply = (\<lambda>item. case uc_UpdateExpression command of
                              None \<Rightarrow> item
                            | Some f \<Rightarrow> f item)
      in case table (uc_Key command) of
           Some item \<Rightarrow> table(uc_Key command \<mapsto> apply item)
         | None \<Rightarrow>
             (case key_only of
                None \<Rightarrow> table
              | Some item \<Rightarrow> table(uc_Key command \<mapsto> apply item)))"

definition update_chat_session :: "world \<Rightarrow> string \<Rightarrow> (ChatSession \<Rightarrow> ChatSession) \<Rightarrow> world" where
  "update_chat_session w sid updates =
     w\<lparr>chat_sessions := UpdateItem (chat_sessions w) None (update_command sid updates)\<rparr>"

text \<open>
  \<^verbatim>\<open>DynamoDBService.query\<close> on chat-messages with the key condition
  \<^verbatim>\<open>sessionId = :sessionId\<close>: the items of the partition in sort-key order, ascending
  when \<^verbatim>\<open>ScanIndexForward\<close> is true, starting after \<^verbatim>\<open>ExclusiveStartKey\<close>, cut after
  \<^verbatim>\<open>Limit\<close> items.  \<^verbatim>\<open>if (options.limit) params.Limit = options.limit\<close> sets no limit for
  0 or a missing value.  The store returns a \<^verbatim>\<open>LastEvaluatedKey\<close> whenever the limit is
  reached.
\<close>

definition query_chat_messages ::
  "world \<Rightarrow> string \<Rightarrow> bool \<Rightarrow> nat option \<Rightarrow> iso_time option \<Rightarrow> ChatMessage PaginatedResult" where
  "query_chat_messages w sid sortAscending limit lastEvaluatedKey =
     (let partition = sort_key cm_timestamp (filter (\<lambda>m. cm_sessionId m = sid) (chat_messages w));
          ordered = (if sortAscending then partition else rev partition);
          rest = (case lastEvaluatedKey of
                    None \<Rightarrow> ordered
                  | Some k \<Rightarrow> filter (\<lambda>m. if sortAscending then k < cm_timestamp m
                                          else cm_timestamp m < k) ordered);
          page = (case limit of
                    None \<Rightarrow> rest
                  | Some n \<Rightarrow> if n = 0 then rest else take n rest)
      in \<lparr>pr_items = page,
          pr_lastEvaluatedKey =
            (case limit of
               None \<Rightarrow> None
             | Some n \<Rightarrow> if n \<noteq> 0 \<and> n \<le> length rest
                         then Some (cm_timestamp (last page)) else None),
          pr_count = length page\<rparr>)"

text \<open>
  \<open>query_fails\<close> says that the call throws.  \<^verbatim>\<open>DynamoDBService.query\<close> copies
  \<^verbatim>\<open>Limit\<close>, \<^verbatim>\<open>ExclusiveStartKey\<close> and \<^verbatim>\<open>IndexName\<close> into the request and spreads the
  options object for the rest, so \<^verbatim>\<open>expressionAttributeValues\<close> never becomes the request
  member \<^verbatim>\<open>ExpressionAttributeValues\<close>: the key condition reaches the store with
  \<^verbatim>\<open>:sessionId\<close> unbound and the store rejects it.  With the method as it is written the
  call throws in every environment; \<open>query_fails = False\<close> is the store answering the
  query for the session.
\<close>

definition getChatMessages ::
  "world \<Rightarrow> bool \<Rightarrow> string \<Rightarrow> nat option \<Rightarrow> iso_time option
     \<Rightarrow> error + ChatMessage PaginatedResult" where
  "getChatMessages w query_fails sessionId limit lastEvaluatedKey =
     (if query_fails then Inl (QueryFailed ''chat-messages'')
      else Inr (query_chat_messages w sessionId True limit lastEvaluatedKey))"

section \<open>The environment of one call\<close>

text \<open>
  What the managed services, the clock and the random source answer during one call of a
  service method.  A flag \<open>..._fails\<close> says that the client call throws (and writes
  nothing); an oracle returning \<open>None\<close> says that the call throws.  With the query method as
  it is written, \<open>e_history_fails\<close> is \<open>True\<close> in every call (see \<open>getChatMessages\<close>).
\<close>

record env =
  e_get_fails :: bool
  e_user_rnd :: "nat \<Rightarrow> nat"
  e_user_now :: iso_time
  e_put_user_fails :: bool
  e_history_fails :: bool
  e_embed_query :: "string \<Rightarrow> real list option"
  e_hybridSearch :: "string \<Rightarrow> real list \<Rightarrow> SearchHit list option"
  e_invokeChat :: "BedrockMessage list \<Rightarrow> BedrockResponse option"
  e_processingTime :: int
  e_asst_rnd :: "nat \<Rightarrow> nat"
  e_asst_now :: iso_time
  e_put_asst_fails :: bool
  e_update_fails :: bool
  e_embed_user :: "string \<Rightarrow> real list option"
  e_embed_asst :: "string \<Rightarrow> real list option"
  e_index_user_fails :: bool
  e_index_asst_fails :: bool

section \<open>ChatService\<close>

definition createSession ::
  "world \<Rightarrow> (nat \<Rightarrow> nat) \<Rightarrow> iso_time \<Rightarrow> bool \<Rightarrow> string \<Rightarrow> string
     \<Rightarrow> (string \<times> string) list option \<Rightarrow> (error + ChatSession) \<times> world" where
  "createSession w rnd now put_fails userId title metadata =
     (let sessionId = generateId ''sess'' 8 rnd;
          session = \<lparr>cs_id = sessionId, cs_userId = userId, cs_title = title,
                     cs_createdAt = now, cs_updatedAt = now, cs_isActive = True,
                     cs_metadata = metadata\<rparr>
      in if put_fails then (Inl (PutFailed ''chat-sessions''), w)
         else (Inr session, put_chat_session w session))"

definition getSession :: "world \<Rightarrow> bool \<Rightarrow> string \<Rightarrow> string \<Rightarrow> error + ChatSession" where
  "getSession w get_fails sessionId userId =
     (if get_fails then Inl (GetFailed ''chat-sessions'')
      else case chat_sessions w sessionId of
             None \<Rightarrow> Inl (NotFoundError ''Chat session'' sessionId)
           | Some session \<Rightarrow>
               if cs_userId session \<noteq> userId
               then Inl (AppError ''FORBIDDEN'' ''Access denied to this session'' 403)
               else Inr session)"

definition deleteSession ::
  "world \<Rightarrow> bool \<Rightarrow> bool \<Rightarrow> iso_time \<Rightarrow> string \<Rightarrow> string \<Rightarrow> (error + unit) \<times> world" where
  "deleteSession w get_fails update_fails now sessionId userId =
     (case getSession w get_fails sessionId userId of
        Inl e \<Rightarrow> (Inl e, w)
      | Inr session \<Rightarrow>
          if update_fails then (Inl (UpdateFailed ''chat-sessions''), w)
          else (Inr (),
                update_chat_session w sessionId
                  (\<lambda>s. s\<lparr>cs_isActive := False, cs_updatedAt := now\<rparr>)))"


text \<open>\<^verbatim>\<open>items.slice(-limit)\<close>: the last \<open>limit\<close> items; \<^verbatim>\<open>slice(-0)\<close> is the whole array.\<close>

definition slice_last :: "nat \<Rightarrow> 'a list \<Rightarrow> 'a list" where
  "slice_last n xs = (if n = 0 then xs else drop (length xs - n) xs)"

definition getChatHistory :: "world \<Rightarrow> bool \<Rightarrow> string \<Rightarrow> nat \<Rightarrow> error + ChatMessage list" where
  "getChatHistory w query_fails sessionId limit =
     (case getChatMessages w query_fails sessionId (Some (limit * 2)) None of
        Inl e \<Rightarrow> Inl e
      | Inr result \<Rightarrow> Inr (slice_last limit (pr_items result)))"

definition performRAGSearch :: "env \<Rightarrow> string \<Rightarrow> SearchHit list" where
  "performRAGSearch env query =
     (case e_embed_query env query of
        None \<Rightarrow> []
      | Some embedding \<Rightarrow>
          (case e_hybridSearch env query embedding of
             None \<Rightarrow> []
           | Some hits \<Rightarrow> hits))"

text \<open>A template literal prints a missing value as \<^verbatim>\<open>undefined\<close>.\<close>

definition template :: "string option \<Rightarrow> string" where
  "template v = (case v of None \<Rightarrow> ''undefined'' | Some s \<Rightarrow> s)"

fun join :: "string \<Rightarrow> string list \<Rightarrow> string" where
  "join sep [] = []"
| "join sep [x] = x"
| "join sep (x # y # ys) = x @ sep @ join sep (y # ys)"

definition context_prompt :: "string \<Rightarrow> string" where
  "context_prompt context =
     ''Context information:'' @ [CHR 0x0A] @ context @ [CHR 0x0A, CHR 0x0A] @
     ''Please use this context to help answer questions about probation, violations, and case management. If the context doesn't contain relevant information, you can still provide helpful general guidance.''"

definition prepareMessagesForBedrock ::
  "ChatMessage list \<Rightarrow> string \<Rightarrow> SearchHit list \<Rightarrow> BedrockMessage list" where
  "prepareMessagesForBedrock history currentMessage searchResults =
     (let grounding =
            (if length searchResults > 0
             then [\<lparr>bm_role = User,
                     bm_content = context_prompt
                       (join [CHR 0x0A, CHR 0x0A]
                          (map (\<lambda>result. template (hs_title (sh_source result)) @ '': '' @
                                  template (map_option (take 500) (hs_content (sh_source result))))
                             searchResults))\<rparr>,
                   \<lparr>bm_role = Assistant,
                     bm_content = ''I understand. I'll use the provided context to help answer questions about probation and case management.''\<rparr>]
             else []);
          recentHistory = slice_last 8 history
      in grounding
         @ map (\<lambda>msg. \<lparr>bm_role = cm_role msg, bm_content = cm_content msg\<rparr>) recentHistory
         @ [\<lparr>bm_role = User, bm_content = currentMessage\<rparr>])"

text \<open>\<^verbatim>\<open>v || d\<close> on an optional string: the default for a missing or empty value.\<close>

definition or_default :: "string option \<Rightarrow> string \<Rightarrow> string" where
  "or_default v d = (case v of None \<Rightarrow> d | Some s \<Rightarrow> if s = [] then d else s)"

definition to_source :: "SearchHit \<Rightarrow> SourceRef" where
  "to_source result =
     \<lparr>sr_id = sh_id result,
      sr_title = or_default (hs_title (sh_source result)) ''Document'',
      sr_excerpt = or_default (map_option (take 200) (hs_content (sh_source result))) [],
      sr_relevance = sh_score result,
      sr_source = or_default (hs_source (sh_source result)) ''knowledge_base''\<rparr>"

definition index_document :: "world \<Rightarrow> string \<Rightarrow> ChatMessage \<times> real list \<Rightarrow> world" where
  "index_document w docId doc = w\<lparr>chat_context := (chat_context w)(docId \<mapsto> doc)\<rparr>"

definition indexConversation :: "world \<Rightarrow> env \<Rightarrow> ChatMessage \<Rightarrow> ChatMessage \<Rightarrow> world" where
  "indexConversation w env userMessage assistantMessage =
     (case e_embed_user env (cm_content userMessage) of
        None \<Rightarrow> w
      | Some userEmbedding \<Rightarrow>
          (case e_embed_asst env (cm_content assistantMessage) of
             None \<Rightarrow> w
           | Some assistantEmbedding \<Rightarrow>
               if e_index_user_fails env then w
               else let w1 = index_document w (cm_id userMessage) (userMessage, userEmbedding)
                    in if e_index_asst_fails env then w1
                       else index_document w1 (cm_id assistantMessage)
                              (assistantMessage, assistantEmbedding)))"

text \<open>The body of the \<^verbatim>\<open>try\<close> block of \<open>sendMessage\<close>; its \<^verbatim>\<open>catch\<close> logs and rethrows.\<close>

definition sendMessage_try ::
  "world \<Rightarrow> env \<Rightarrow> string \<Rightarrow> ChatMessage \<Rightarrow> string \<Rightarrow> (error + ChatResponse) \<times> world" where
  "sendMessage_try w env sessionId userMessage message =
     (case getChatHistory w (e_history_fails env) sessionId 10 of
        Inl e \<Rightarrow> (Inl e, w)
      | Inr messageHistory \<Rightarrow>
          let searchResults = performRAGSearch env message;
              messages = prepareMessagesForBedrock messageHistory message searchResults
          in (case e_invokeChat env messages of
                None \<Rightarrow> (Inl ChatInvocationFailed, w)
              | Some bedrockResponse \<Rightarrow>
                  let processingTime = e_processingTime env;
                      assistantMessageId = generateId ''msg'' 8 (e_asst_rnd env);
                      assistantTimestamp = e_asst_now env;
                      metadata = \<lparr>mm_tokensUsed = br_inputTokens bedrockResponse
                                                    + br_outputTokens bedrockResponse,
                                  mm_processingTime = processingTime,
                                  mm_sources = map to_source searchResults\<rparr>;
                      assistantMessage =
                        \<lparr>cm_id = assistantMessageId, cm_sessionId = sessionId,
                         cm_role = Assistant, cm_content = br_content bedrockResponse,
                         cm_timestamp = assistantTimestamp, cm_metadata = Some metadata\<rparr>
                  in if e_put_asst_fails env then (Inl (PutFailed ''chat-messages''), w)
                     else let w2 = put_chat_message w assistantMessage
                          in if e_update_fails env
                             then (Inl (UpdateFailed ''chat-sessions''), w2)
                             else let w3 = update_chat_session w2 sessionId
                                             (\<lambda>s. s\<lparr>cs_updatedAt := assistantTimestamp\<rparr>);
                                      w4 = indexConversation w3 env userMessage assistantMessage
                                  in (Inr \<lparr>cr_message = br_content bedrockResponse,
                                           cr_sessionId = sessionId,
                                           cr_sources = Some (mm_sources metadata),
                                           cr_metadata =
                                             Some \<lparr>rm_tokensUsed = mm_tokensUsed metadata,
                                                   rm_processingTime = processingTime,
                                                   rm_confidence = 0.85\<rparr>\<rparr>,
                                      w4)))"

definition sendMessage ::
  "world \<Rightarrow> env \<Rightarrow> string \<Rightarrow> string \<Rightarrow> string \<Rightarrow> (error + ChatResponse) \<times> world" where
  "sendMessage w env sessionId userId message =
     (case getSession w (e_get_fails env) sessionId userId of
        Inl e \<Rightarrow> (Inl e, w)
      | Inr session \<Rightarrow>
          if \<not> cs_isActive session
          then (Inl (AppError ''INVALID_SESSION'' ''Cannot send message to inactive session'' 400), w)
          else let userMessageId = generateId ''msg'' 8 (e_user_rnd env);
                   timestamp = e_user_now env;
                   userMessage = \<lparr>cm_id = userMessageId, cm_sessionId = sessionId,
                                  cm_role = User, cm_content = message,
                                  cm_timestamp = timestamp, cm_metadata = None\<rparr>
               in if e_put_user_fails env then (Inl (PutFailed ''chat-messages''), w)
                  else sendMessage_try (put_chat_message w userMessage) env sessionId
                         userMessage message)"

text \<open>
  The message list \<open>sendMessage\<close> hands to \<^verbatim>\<open>invokeChat\<close> once the put of the user
  message and the history query have succeeded: the history of the table that holds the
  new user message, the message itself and the search results.
\<close>

definition bedrock_request :: "world \<Rightarrow> env \<Rightarrow> string \<Rightarrow> string \<Rightarrow> BedrockMessage list" where
  "bedrock_request w env sessionId message =
     (let userMessage = \<lparr>cm_id = generateId ''msg'' 8 (e_user_rnd env), cm_sessionId = sessionId,
                          cm_role = User, cm_content = message,
                          cm_timestamp = e_user_now env, cm_metadata = None\<rparr>;
          page = query_chat_messages (put_chat_message w userMessage) sessionId True (Some 20) None
      in prepareMessagesForBedrock (slice_last 10 (pr_items page)) message
           (performRAGSearch env message))"

section \<open>AnalysisService and BedrockClient.analyzeViolations\<close>

record AnalysisContext =
  ac_documentInfo :: "(string option \<times> string option \<times> string list option) option"
  ac_metadata :: "(string \<times> string) list option"

text \<open>
  \<open>a_JSON_parse\<close> is \<^verbatim>\<open>JSON.parse\<close>: \<open>None\<close> when it throws a SyntaxError.
\<close>

record aenv =
  a_doc_get_fails :: bool
  a_invokeChat :: "BedrockMessage list \<Rightarrow> BedrockResponse option"
  a_JSON_parse :: "string \<Rightarrow> json option"
  a_processingTime :: int
  a_store_fails :: bool
  a_now :: iso_time

text \<open>\<^verbatim>\<open>if (documentId)\<close>: a missing or empty string is falsy.\<close>

definition truthy :: "string option \<Rightarrow> bool" where
  "truthy v = (case v of None \<Rightarrow> False | Some s \<Rightarrow> s \<noteq> [])"

definition buildAnalysisContext ::
  "world \<Rightarrow> aenv \<Rightarrow> string option \<Rightarrow> (string \<times> string) list option \<Rightarrow> AnalysisContext" where
  "buildAnalysisContext w env documentId metadata =
     \<lparr>ac_documentInfo =
        (if truthy documentId
         then (if a_doc_get_fails env then None
               else (case documents w (the documentId) of
                       None \<Rightarrow> None
                     | Some document \<Rightarrow>
                         Some (d_title document, d_contentType document, d_tags document)))
         else None),
      ac_metadata = metadata\<rparr>"

text \<open>
  The prompt reads \<^verbatim>\<open>context.subjectInfo\<close>, \<^verbatim>\<open>context.previousViolations\<close> and
  \<^verbatim>\<open>context.guidelines\<close>; the context object built above has none of the three, so
  each of the three lines is empty.
\<close>

definition buildViolationAnalysisPrompt :: "string \<Rightarrow> AnalysisContext \<Rightarrow> string" where
  \<open>buildViolationAnalysisPrompt text context =
     join [CHR 0x0A]
       [''You are an AI assistant specialized in analyzing probation and parole violations. Your task is to analyze the provided text and identify potential violations, assess risk levels, and provide recommendations.'',
        '''',
        ''Context Information:'',
        '''',
        '''',
        '''',
        '''',
        ''Text to Analyze:'',
        text,
        '''',
        ''Please provide your analysis in the following JSON format:'',
        ''{'',
        ''  "violations": ['',
        ''    {'',
        ''      "type": "violation category",'',
        ''      "description": "detailed description of the violation",'',
        ''      "severity": "low|medium|high|critical",'',
        ''      "confidence": 0.85,'',
        ''      "location": {'',
        ''        "start": 0,'',
        ''        "end": 50,'',
        ''        "text": "relevant excerpt from text"'',
        ''      }'',
        ''    }'',
        ''  ],'',
        ''  "summary": "brief summary of key findings",'',
        ''  "riskScore": 75,'',
        ''  "recommendations": ['',
        ''    "specific recommendation 1",'',
        ''    "specific recommendation 2"'',
        ''  ]'',
        ''}'',
        '''',
        ''Guidelines for Analysis:'',
        ''1. Identify specific violations based on standard probation conditions'',
        ''2. Assess severity based on potential impact and risk to public safety'',
        ''3. Provide confidence scores based on clarity of evidence'',
        ''4. Include specific text excerpts that support your findings'',
        ''5. Generate risk scores from 0-100 based on violation severity and context'',
        ''6. Provide actionable recommendations for supervision officers'',
        '''',
        ''Return only the JSON response, no additional commentary.'']\<close>

definition analyzeViolations :: "aenv \<Rightarrow> string \<Rightarrow> AnalysisContext \<Rightarrow> error + json" where
  "analyzeViolations env text context =
     (let prompt = buildViolationAnalysisPrompt text context;
          messages = [\<lparr>bm_role = User, bm_content = prompt\<rparr>]
      in case a_invokeChat env messages of
           None \<Rightarrow> Inl ChatInvocationFailed
         | Some response \<Rightarrow>
             (case a_JSON_parse env (br_content response) of
                None \<Rightarrow> Inl ParseFailed
              | Some v \<Rightarrow> Inr v))"

text \<open>
  Reading a property: a TypeError on \<^verbatim>\<open>null\<close>, the property of an object, and
  \<^verbatim>\<open>undefined\<close> on any other value.
\<close>

fun get_prop :: "json \<Rightarrow> string \<Rightarrow> error + json option" where
  "get_prop JNull k = Inl TypeError"
| "get_prop (JObj props) k = Inr (map_of props k)"
| "get_prop v k = Inr None"

definition key_only_document :: Document where
  "key_only_document = \<lparr>d_title = None, d_contentType = None, d_tags = None,
                         d_analysisResult = None, d_analysisTimestamp = None\<rparr>"

definition storeAnalysisResult :: "world \<Rightarrow> aenv \<Rightarrow> string \<Rightarrow> AnalysisResponse \<Rightarrow> world" where
  "storeAnalysisResult w env documentId result =
     (if a_store_fails env then w
      else w\<lparr>documents :=
               UpdateItem (documents w) (Some key_only_document)
                 (update_command documentId
                    (\<lambda>document. document\<lparr>d_analysisResult := Some result,
                                          d_analysisTimestamp := Some (a_now env)\<rparr>))\<rparr>)"

definition analyzeText ::
  "world \<Rightarrow> aenv \<Rightarrow> string \<Rightarrow> string option \<Rightarrow> (string \<times> string) list option
     \<Rightarrow> (error + AnalysisResponse) \<times> world" where
  "analyzeText w env text documentId metadata =
     (let context = buildAnalysisContext w env documentId metadata
      in case analyzeViolations env text context of
           Inl e \<Rightarrow> (Inl e, w)
         | Inr analysisResult \<Rightarrow>
             (case get_prop analysisResult ''violations'' of
                Inl e \<Rightarrow> (Inl e, w)
              | Inr violations \<Rightarrow>
                  let response =
                        \<lparr>ar_violations = violations,
                         ar_summary = projr (get_prop analysisResult ''summary''),
                         ar_riskScore = projr (get_prop analysisResult ''riskScore''),
                         ar_recommendations = projr (get_prop analysisResult ''recommendations''),
                         ar_processingTime = a_processingTime env\<rparr>
                  in if truthy documentId
                     then (Inr response, storeAnalysisResult w env (the documentId) response)
                     else (Inr response, w)))"

section \<open>Observations on the stores\<close>

definition message_count :: "world \<Rightarrow> string \<Rightarrow> nat" where
  "message_count w sessionId =
     length (filter (\<lambda>m. cm_sessionId m = sessionId) (chat_messages w))"

definition user_message_count :: "world \<Rightarrow> string \<Rightarrow> nat" where
  "user_message_count w sessionId =
     length (filter (\<lambda>m. cm_sessionId m = sessionId \<and> cm_role m = User) (chat_messages w))"

text \<open>
  The history as the specification words it: the \<open>n\<close> most recent stored messages of the
  session, in timestamp order.
\<close>

definition spec_recent_history :: "world \<Rightarrow> string \<Rightarrow> nat \<Rightarrow> ChatMessage list" where
  "spec_recent_history w sessionId n =
     slice_last n
       (sort_key cm_timestamp (filter (\<lambda>m. cm_sessionId m = sessionId) (chat_messages w)))"

section \<open>Example inputs\<close>

definition empty_world :: world where
  "empty_world = \<lparr>chat_sessions = Map.empty, chat_messages = [], documents = Map.empty,
                   chat_context = Map.empty\<rparr>"

definition rnd_up :: "nat \<Rightarrow> nat" where
  "rnd_up i = i"

definition rnd_down :: "nat \<Rightarrow> nat" where
  "rnd_down i = 61 - i"

definition session1 :: ChatSession where
  "session1 = \<lparr>cs_id = ''sess_ABCDEFGH'', cs_userId = ''alice'', cs_title = ''Intake'',
               cs_createdAt = 1, cs_updatedAt = 1, cs_isActive = True, cs_metadata = None\<rparr>"

definition world1 :: world where
  "world1 = empty_world\<lparr>chat_sessions := [''sess_ABCDEFGH'' \<mapsto> session1]\<rparr>"

definition msg_at :: "nat \<Rightarrow> ChatMessage" where
  "msg_at t = \<lparr>cm_id = ''msg_AAAAAAAA'', cm_sessionId = ''sess_ABCDEFGH'',
               cm_role = (if odd t then User else Assistant), cm_content = ''ok'',
               cm_timestamp = t, cm_metadata = None\<rparr>"

text \<open>A session that holds 21 messages, stored at the instants 1 to 21.\<close>

definition world21 :: world where
  "world21 = world1\<lparr>chat_messages := map msg_at [1..<22]\<rparr>"

definition session_off :: ChatSession where
  "session_off = session1\<lparr>cs_isActive := False\<rparr>"

definition world_off :: world where
  "world_off = world21\<lparr>chat_sessions := [''sess_ABCDEFGH'' \<mapsto> session_off]\<rparr>"

definition model_ok :: "BedrockMessage list \<Rightarrow> BedrockResponse option" where
  "model_ok messages = Some \<lparr>br_content = ''Noted.'', br_inputTokens = 12, br_outputTokens = 3\<rparr>"

definition embed_ok :: "string \<Rightarrow> real list option" where
  "embed_ok s = Some [0]"

definition embed_down :: "string \<Rightarrow> real list option" where
  "embed_down s = None"

definition search_ok :: "string \<Rightarrow> real list \<Rightarrow> SearchHit list option" where
  "search_ok s vector =
     Some [\<lparr>sh_id = ''doc_001'', sh_score = 1,
            sh_source = \<lparr>hs_title = Some ''Conditions'', hs_content = Some ''Report weekly.'',
                         hs_source = None\<rparr>\<rparr>]"

definition env_ok :: env where
  "env_ok = \<lparr>e_get_fails = False, e_user_rnd = rnd_up, e_user_now = 5,
             e_put_user_fails = False, e_history_fails = False,
             e_embed_query = embed_ok, e_hybridSearch = search_ok, e_invokeChat = model_ok,
             e_processingTime = 40, e_asst_rnd = rnd_down, e_asst_now = 6,
             e_put_asst_fails = False, e_update_fails = False,
             e_embed_user = embed_ok, e_embed_asst = embed_ok,
             e_index_user_fails = False, e_index_asst_fails = False\<rparr>"

definition env_history_down :: env where
  "env_history_down = env_ok\<lparr>e_history_fails := True\<rparr>"

definition env_rag_down :: env where
  "env_rag_down = env_ok\<lparr>e_embed_query := embed_down\<rparr>"

text \<open>
  Environments of the code as it is written: the history query throws.  In \<open>env_late\<close>
  the clock is past every stored message; in \<open>env_rag_query_down\<close> the embedding service
  is down as well.
\<close>

definition env_late :: env where
  "env_late = env_history_down\<lparr>e_user_now := 30\<rparr>"

definition env_rag_query_down :: env where
  "env_rag_query_down = env_rag_down\<lparr>e_history_fails := True\<rparr>"

definition reply_ok :: ChatResponse where
  "reply_ok = \<lparr>cr_message = ''Noted.'', cr_sessionId = ''sess_ABCDEFGH'',
               cr_sources = Some [\<lparr>sr_id = ''doc_001'', sr_title = ''Conditions'',
                                   sr_excerpt = ''Report weekly.'', sr_relevance = 1,
                                   sr_source = ''knowledge_base''\<rparr>],
               cr_metadata = Some \<lparr>rm_tokensUsed = 15, rm_processingTime = 40,
                                    rm_confidence = 0.85\<rparr>\<rparr>"

text \<open>
  A stand-in for \<^verbatim>\<open>JSON.parse\<close> on the two strings the examples use: the empty object
  parses, a sentence of prose does not.
\<close>

definition parse_example :: "string \<Rightarrow> json option" where
  "parse_example s = (if s = ''{}'' then Some (JObj []) else None)"

definition model_prose :: "BedrockMessage list \<Rightarrow> BedrockResponse option" where
  "model_prose messages =
     Some \<lparr>br_content = ''Here is my analysis.'', br_inputTokens = 300, br_outputTokens = 5\<rparr>"

definition model_empty_object :: "BedrockMessage list \<Rightarrow> BedrockResponse option" where
  "model_empty_object messages =
     Some \<lparr>br_content = ''{}'', br_inputTokens = 300, br_outputTokens = 1\<rparr>"

definition aenv_empty_object :: aenv where
  "aenv_empty_object = \<lparr>a_doc_get_fails = False, a_invokeChat = model_empty_object,
                        a_JSON_parse = parse_example, a_processingTime = 25,
                        a_store_fails = False, a_now = 9\<rparr>"

definition aenv_prose :: aenv where
  "aenv_prose = \<lparr>a_doc_get_fails = False, a_invokeChat = model_prose,
                 a_JSON_parse = parse_example, a_processingTime = 25,
                 a_store_fails = False, a_now = 9\<rparr>"

section \<open>Identifiers\<close>

lemma distinct_chars: "distinct chars"
  by (simp add: chars_def)

lemma length_chars: "length chars = 62"
  by (simp add: chars_def)

lemma foldl_charAt:
  "\<forall>i<len. rnd i < 62 \<Longrightarrow>
   foldl (\<lambda>result i. result @ charAt chars (rnd i)) acc [0..<len]
     = acc @ map (\<lambda>i. chars ! rnd i) [0..<len]"
  by (induction len arbitrary: acc) (simp_all add: charAt_def length_chars)

lemma generateId_eq:
  "\<forall>i<len. rnd i < 62 \<Longrightarrow>
   generateId prefix len rnd
     = (if prefix \<noteq> [] then prefix @ ''_'' else []) @ map (\<lambda>i. chars ! rnd i) [0..<len]"
  using foldl_charAt [of len rnd "[]"] by (simp add: generateId_def)

lemma generateId_rnd_up: "generateId ''sess'' 8 rnd_up = ''sess_ABCDEFGH''"
  by (simp add: generateId_def rnd_up_def charAt_def chars_def upt_rec)

text \<open>
  C8 (as amended).  An identifier is the prefix, an underscore and one character of the
  62-letter alphabet per random draw.  Two identifiers minted with the same prefix and
  length are equal exactly when all their random draws agree; nothing compares a new
  identifier with the ones already handed out.
\<close>

theorem generateId_injective:
  assumes "\<forall>i<len. r1 i < 62" and "\<forall>i<len. r2 i < 62"
  shows "generateId prefix len r1 = generateId prefix len r2 \<longleftrightarrow> (\<forall>i<len. r1 i = r2 i)"
proof -
  have "map (\<lambda>i. chars ! r1 i) [0..<len] = map (\<lambda>i. chars ! r2 i) [0..<len]
        \<longleftrightarrow> (\<forall>i<len. chars ! r1 i = chars ! r2 i)"
    by (auto simp: list_eq_iff_nth_eq)
  also have "\<dots> \<longleftrightarrow> (\<forall>i<len. r1 i = r2 i)"
    using assms distinct_chars by (auto simp: nth_eq_iff_index_eq length_chars)
  finally show ?thesis
    using assms by (simp add: generateId_eq)
qed

theorem generateId_injective_witness:
  "generateId ''sess'' 8 rnd_up \<noteq> generateId ''sess'' 8 rnd_down"
proof -
  have "\<forall>i<8. rnd_up i < 62" and "\<forall>i<8. rnd_down i < 62"
    by (auto simp: rnd_up_def rnd_down_def)
  moreover have "\<not> (\<forall>i<8. rnd_up i = rnd_down i)"
    by (auto simp: rnd_up_def rnd_down_def intro: exI [of _ 0])
  ultimately show ?thesis
    using generateId_injective [of 8 rnd_up rnd_down "''sess''"] by simp
qed

text \<open>
  C8 (as stated) fails: two creations, by different users at different times, whose random
  draws coincide get the same session identifier.
\<close>

theorem createSession_same_id:
  "fst (createSession empty_world rnd_up 1 False ''alice'' ''Intake'' None)
     = Inr \<lparr>cs_id = ''sess_ABCDEFGH'', cs_userId = ''alice'', cs_title = ''Intake'',
            cs_createdAt = 1, cs_updatedAt = 1, cs_isActive = True, cs_metadata = None\<rparr>
   \<and> fst (createSession (snd (createSession empty_world rnd_up 1 False ''alice'' ''Intake'' None))
          rnd_up 2 False ''bob'' ''Other'' None)
     = Inr \<lparr>cs_id = ''sess_ABCDEFGH'', cs_userId = ''bob'', cs_title = ''Other'',
            cs_createdAt = 2, cs_updatedAt = 2, cs_isActive = True, cs_metadata = None\<rparr>"
  by (simp add: createSession_def Let_def generateId_rnd_up)

section \<open>The chat-messages table\<close>

lemma chat_messages_update_chat_session [simp]:
  "chat_messages (update_chat_session w sid f) = chat_messages w"
  by (simp add: update_chat_session_def split: option.splits)

lemma chat_messages_indexConversation [simp]:
  "chat_messages (indexConversation w env um am) = chat_messages w"
  by (simp add: indexConversation_def index_document_def Let_def split: option.splits)

lemma chat_messages_put:
  "chat_messages (put_chat_message w m)
     = filter (\<lambda>x. msg_key x \<noteq> msg_key m) (chat_messages w) @ [m]"
  by (simp add: put_chat_message_def)

lemma filter_fresh_key:
  "k \<notin> msg_key ` set xs \<Longrightarrow> filter (\<lambda>x. msg_key x \<noteq> k) xs = xs"
  by (induction xs) auto


lemma table_ok_empty: "table_ok empty_world"
  by (simp add: table_ok_def empty_world_def)

lemma table_ok_frame [simp]:
  "table_ok (update_chat_session w sid f) = table_ok w"
  "table_ok (indexConversation w env um am) = table_ok w"
  by (simp_all add: table_ok_def)













section \<open>Conversation history\<close>

lemma getChatHistory_page:
  "0 < n \<Longrightarrow>
   getChatHistory w False sid n
     = Inr (slice_last n (take (n * 2)
              (sort_key cm_timestamp (filter (\<lambda>m. cm_sessionId m = sid) (chat_messages w)))))"
  by (simp add: getChatHistory_def getChatMessages_def query_chat_messages_def Let_def)

lemma getChatHistory_small:
  "0 < n \<Longrightarrow> message_count w sid \<le> n * 2 \<Longrightarrow>
   getChatHistory w False sid n = Inr (spec_recent_history w sid n)"
  by (simp add: getChatHistory_page spec_recent_history_def message_count_def)

text \<open>
  C1.  The history step is to keep the 10 most recent messages of the session.  The query
  reads the partition in ascending order with a limit of 20, so it returns the 20 oldest
  messages, and the last 10 of these are kept.  On a session that holds the messages of the
  instants 1 to 21 the history is the messages of 11 to 20, whereas the 10 most recent ones
  are those of 12 to 21.
\<close>

theorem getChatHistory_keeps_old_page:
  "getChatHistory world21 False ''sess_ABCDEFGH'' 10
     = Inr (map msg_at [11, 12, 13, 14, 15, 16, 17, 18, 19, 20])
   \<and> spec_recent_history world21 ''sess_ABCDEFGH'' 10
     = map msg_at [12, 13, 14, 15, 16, 17, 18, 19, 20, 21]"
  by code_simp

section \<open>sendMessage\<close>

lemma getSession_world1: "getSession world1 False ''sess_ABCDEFGH'' ''alice'' = Inr session1"
  by (simp add: getSession_def world1_def empty_world_def session1_def)

lemma sendMessage_world1_env_ok:
  "fst (sendMessage world1 env_ok ''sess_ABCDEFGH'' ''alice'' ''hello'') = Inr reply_ok"
  by (simp add: sendMessage_def sendMessage_try_def getSession_world1 env_ok_def session1_def
        getChatHistory_def getChatMessages_def Let_def model_ok_def performRAGSearch_def
        embed_ok_def search_ok_def to_source_def or_default_def reply_ok_def)

text \<open>
  C2 (as amended).  When the preconditions hold (the session is found, owned by the caller
  and active), what sendMessage returns is decided by five steps, in this order: it fails
  with the error of the put of the user message (step 1), of the history query (step 2),
  of the model invocation on the message list it sends (step 5), of the put of the reply
  (step 6) or of the update of the session (step 7), whichever fails first; when none of
  them fails it returns a reply with usage metadata.  Retrieval (step 3) and indexing
  (step 8) have no part in it.
\<close>

theorem sendMessage_result_guarantee:
  assumes "getSession w (e_get_fails env) sid uid = Inr s" and "cs_isActive s"
  shows "(e_put_user_fails env
            \<longrightarrow> fst (sendMessage w env sid uid msg) = Inl (PutFailed ''chat-messages''))
       \<and> (\<not> e_put_user_fails env \<and> e_history_fails env
            \<longrightarrow> fst (sendMessage w env sid uid msg) = Inl (QueryFailed ''chat-messages''))
       \<and> (\<not> e_put_user_fails env \<and> \<not> e_history_fails env
            \<and> e_invokeChat env (bedrock_request w env sid msg) = None
            \<longrightarrow> fst (sendMessage w env sid uid msg) = Inl ChatInvocationFailed)
       \<and> (\<not> e_put_user_fails env \<and> \<not> e_history_fails env
            \<and> e_invokeChat env (bedrock_request w env sid msg) \<noteq> None
            \<and> e_put_asst_fails env
            \<longrightarrow> fst (sendMessage w env sid uid msg) = Inl (PutFailed ''chat-messages''))
       \<and> (\<not> e_put_user_fails env \<and> \<not> e_history_fails env
            \<and> e_invokeChat env (bedrock_request w env sid msg) \<noteq> None
            \<and> \<not> e_put_asst_fails env \<and> e_update_fails env
            \<longrightarrow> fst (sendMessage w env sid uid msg) = Inl (UpdateFailed ''chat-sessions''))
       \<and> (\<not> e_put_user_fails env \<and> \<not> e_history_fails env
            \<and> e_invokeChat env (bedrock_request w env sid msg) \<noteq> None
            \<and> \<not> e_put_asst_fails env \<and> \<not> e_update_fails env
            \<longrightarrow> (\<exists>r. fst (sendMessage w env sid uid msg) = Inr r \<and> cr_metadata r \<noteq> None))"
  using assms
  by (auto simp: sendMessage_def sendMessage_try_def getChatHistory_def getChatMessages_def
        bedrock_request_def Let_def
           split: sum.splits option.splits if_splits)

theorem sendMessage_result_guarantee_witness:
  "getSession world1 (e_get_fails env_rag_query_down) ''sess_ABCDEFGH'' ''alice'' = Inr session1
   \<and> cs_isActive session1
   \<and> e_embed_query env_rag_query_down ''hello'' = None
   \<and> fst (sendMessage world1 env_rag_query_down ''sess_ABCDEFGH'' ''alice'' ''hello'')
       = Inl (QueryFailed ''chat-messages'')"
proof -
  have g: "getSession world1 (e_get_fails env_rag_query_down) ''sess_ABCDEFGH'' ''alice''
             = Inr session1"
    by (simp add: getSession_world1 env_rag_query_down_def env_rag_down_def env_ok_def)
  have a: "cs_isActive session1"
    by (simp add: session1_def)
  have f: "\<not> e_put_user_fails env_rag_query_down \<and> e_history_fails env_rag_query_down"
    by (simp add: env_rag_query_down_def env_rag_down_def env_ok_def)
  have e: "e_embed_query env_rag_query_down ''hello'' = None"
    by (simp add: env_rag_query_down_def env_rag_down_def embed_down_def)
  show ?thesis
    using sendMessage_result_guarantee [OF g a, of "''hello''"] g a f e by blast
qed

text \<open>
  C2 (as stated) fails: the put of the user message succeeds, the message is stored, and
  the call fails with the error of the history query of step 2.
\<close>

theorem history_failure_fails_sendMessage:
  "fst (sendMessage world1 env_history_down ''sess_ABCDEFGH'' ''alice'' ''hello'')
     = Inl (QueryFailed ''chat-messages'')
   \<and> map cm_content
       (chat_messages (snd (sendMessage world1 env_history_down ''sess_ABCDEFGH'' ''alice'' ''hello'')))
     = [''hello'']"
  by code_simp

text \<open>
  C4.  On a session stored as inactive, sendMessage fails and writes nothing: the stores
  are as before, so the message count of the session is unchanged and the session is still
  inactive.  The error is the invalid-session error whenever the lookup hands the session
  to the caller, that is, the read works and the caller owns the session.
\<close>

theorem sendMessage_inactive:
  assumes "chat_sessions w sid = Some s" and "\<not> cs_isActive s"
  shows "isl (fst (sendMessage w env sid uid msg))
       \<and> snd (sendMessage w env sid uid msg) = w
       \<and> message_count (snd (sendMessage w env sid uid msg)) sid = message_count w sid
       \<and> chat_sessions (snd (sendMessage w env sid uid msg)) sid = Some s
       \<and> (\<not> e_get_fails env \<and> cs_userId s = uid \<longrightarrow>
            fst (sendMessage w env sid uid msg)
              = Inl (AppError ''INVALID_SESSION'' ''Cannot send message to inactive session'' 400))"
  using assms
  by (auto simp: sendMessage_def getSession_def split: sum.splits if_splits)

theorem sendMessage_inactive_witness:
  "chat_sessions world_off ''sess_ABCDEFGH'' = Some session_off
   \<and> \<not> cs_isActive session_off
   \<and> fst (sendMessage world_off env_ok ''sess_ABCDEFGH'' ''alice'' ''hello'')
       = Inl (AppError ''INVALID_SESSION'' ''Cannot send message to inactive session'' 400)
   \<and> snd (sendMessage world_off env_ok ''sess_ABCDEFGH'' ''alice'' ''hello'') = world_off
   \<and> message_count world_off ''sess_ABCDEFGH'' = 21"
proof -
  have s: "chat_sessions world_off ''sess_ABCDEFGH'' = Some session_off"
    by (simp add: world_off_def)
  have a: "\<not> cs_isActive session_off"
    by (simp add: session_off_def)
  have o: "\<not> e_get_fails env_ok \<and> cs_userId session_off = ''alice''"
    by (simp add: env_ok_def session_off_def session1_def)
  have c: "message_count world_off ''sess_ABCDEFGH'' = 21"
    by code_simp
  show ?thesis
    using sendMessage_inactive [OF s a, of env_ok "''alice''" "''hello''"] s a o c by simp
qed

lemma user_message_count_put_fresh:
  "msg_key m \<notin> msg_key ` set (chat_messages w) \<Longrightarrow>
   user_message_count (put_chat_message w m) sid
     = user_message_count w sid + (if cm_sessionId m = sid \<and> cm_role m = User then 1 else 0)"
  by (simp add: user_message_count_def chat_messages_put filter_fresh_key)

lemma user_message_count_frame [simp]:
  "user_message_count (update_chat_session w sid f) s = user_message_count w s"
  "user_message_count (indexConversation w env um am) s = user_message_count w s"
  by (simp_all add: user_message_count_def)

lemma sendMessage_try_early_failure:
  "fst (sendMessage_try w env sid um msg) = Inl (QueryFailed ''chat-messages'')
   \<or> fst (sendMessage_try w env sid um msg) = Inl ChatInvocationFailed \<Longrightarrow>
   snd (sendMessage_try w env sid um msg) = w"
  by (auto simp: sendMessage_try_def getChatHistory_def getChatMessages_def Let_def
           split: sum.splits option.splits if_splits)

lemma sendMessage_try_user_count:
  assumes "(sid, e_asst_now env) \<notin> msg_key ` set (chat_messages w)"
  shows "user_message_count (snd (sendMessage_try w env sid um msg)) sid = user_message_count w sid"
proof -
  have "user_message_count (put_chat_message w am) sid = user_message_count w sid"
    if "cm_role am = Assistant" "msg_key am = (sid, e_asst_now env)" for am
    using that assms user_message_count_put_fresh [of am w sid] by simp
  then show ?thesis
    by (simp add: sendMessage_try_def Let_def msg_key_def split: sum.splits option.splits)
qed

text \<open>
  C5 (as amended).  On an existing, owned, active session the user message is put before
  the history is read and the model is called.  Once the store has taken that put, a
  failure of the history query or of the model invocation leaves the user message in the
  table.  When the session holds no message under the timestamp of the new one, the
  number of stored user messages of the session has grown by exactly 1 after such a
  failure, and also after every other outcome of the later steps as long as the reply is
  stored under a timestamp of its own.
\<close>

theorem sendMessage_keeps_user_message:
  assumes "getSession w (e_get_fails env) sid uid = Inr s" and "cs_isActive s"
    and "\<not> e_put_user_fails env"
  shows "(fst (sendMessage w env sid uid msg) = Inl (QueryFailed ''chat-messages'')
            \<or> fst (sendMessage w env sid uid msg) = Inl ChatInvocationFailed \<longrightarrow>
            \<lparr>cm_id = generateId ''msg'' 8 (e_user_rnd env), cm_sessionId = sid, cm_role = User,
             cm_content = msg, cm_timestamp = e_user_now env, cm_metadata = None\<rparr>
              \<in> set (chat_messages (snd (sendMessage w env sid uid msg))))
       \<and> ((sid, e_user_now env) \<notin> msg_key ` set (chat_messages w) \<longrightarrow>
            (fst (sendMessage w env sid uid msg) = Inl (QueryFailed ''chat-messages'')
               \<or> fst (sendMessage w env sid uid msg) = Inl ChatInvocationFailed \<longrightarrow>
               user_message_count (snd (sendMessage w env sid uid msg)) sid
                 = user_message_count w sid + 1)
            \<and> ((sid, e_asst_now env) \<notin> msg_key ` set (chat_messages w)
                 \<and> e_asst_now env \<noteq> e_user_now env \<longrightarrow>
                 user_message_count (snd (sendMessage w env sid uid msg)) sid
                   = user_message_count w sid + 1))"
proof -
  let ?um = "\<lparr>cm_id = generateId ''msg'' 8 (e_user_rnd env), cm_sessionId = sid, cm_role = User,
              cm_content = msg, cm_timestamp = e_user_now env, cm_metadata = None\<rparr>"
  let ?w1 = "put_chat_message w ?um"
  have sm: "sendMessage w env sid uid msg = sendMessage_try ?w1 env sid ?um msg"
    using assms by (simp add: sendMessage_def Let_def)
  have stored: "?um \<in> set (chat_messages ?w1)"
    by (simp add: chat_messages_put)
  have c1: "user_message_count ?w1 sid = user_message_count w sid + 1"
    if "(sid, e_user_now env) \<notin> msg_key ` set (chat_messages w)"
    using that by (simp add: user_message_count_put_fresh msg_key_def)
  have fresh2: "(sid, e_asst_now env) \<notin> msg_key ` set (chat_messages ?w1)"
    if "(sid, e_asst_now env) \<notin> msg_key ` set (chat_messages w)"
       "e_asst_now env \<noteq> e_user_now env"
    using that by (auto simp: msg_key_def chat_messages_put)
  show ?thesis
    using sm stored c1 sendMessage_try_early_failure [of ?w1 env sid ?um msg]
      sendMessage_try_user_count [of sid env ?w1 ?um msg] fresh2
    by auto
qed

theorem sendMessage_keeps_user_message_witness:
  "user_message_count world21 ''sess_ABCDEFGH'' = 11
   \<and> fst (sendMessage world21 env_late ''sess_ABCDEFGH'' ''alice'' ''hello'')
       = Inl (QueryFailed ''chat-messages'')
   \<and> user_message_count
       (snd (sendMessage world21 env_late ''sess_ABCDEFGH'' ''alice'' ''hello''))
       ''sess_ABCDEFGH'' = 12"
proof -
  have w: "chat_sessions world21 = chat_sessions world1"
    by (simp add: world21_def)
  have g: "getSession world21 (e_get_fails env_late) ''sess_ABCDEFGH'' ''alice'' = Inr session1"
    using getSession_world1
    by (simp add: getSession_def w env_late_def env_history_down_def env_ok_def)
  have a: "cs_isActive session1"
    by (simp add: session1_def)
  have p: "\<not> e_put_user_fails env_late"
    by (simp add: env_late_def env_history_down_def env_ok_def)
  have f: "(''sess_ABCDEFGH'', e_user_now env_late) \<notin> msg_key ` set (chat_messages world21)"
    by (auto simp: world21_def msg_key_def msg_at_def env_late_def)
  have c: "user_message_count world21 ''sess_ABCDEFGH'' = 11"
    by code_simp
  have r: "fst (sendMessage world21 env_late ''sess_ABCDEFGH'' ''alice'' ''hello'')
             = Inl (QueryFailed ''chat-messages'')"
    by code_simp
  show ?thesis
    using sendMessage_keeps_user_message [OF g a p, of "''hello''"] f c r by simp
qed

text \<open>
  C5 (as stated) fails: a second message sent to the session in the millisecond of the
  first is put under the key of the first and replaces it; the call then fails at a later
  step, and the session holds 1 user message before the call and 1 after it.
\<close>

theorem same_millisecond_count_unchanged:
  "user_message_count
     (snd (sendMessage world1 env_history_down ''sess_ABCDEFGH'' ''alice'' ''first''))
     ''sess_ABCDEFGH'' = 1
   \<and> fst (sendMessage
            (snd (sendMessage world1 env_history_down ''sess_ABCDEFGH'' ''alice'' ''first''))
            env_history_down ''sess_ABCDEFGH'' ''alice'' ''second'')
       = Inl (QueryFailed ''chat-messages'')
   \<and> user_message_count
       (snd (sendMessage
               (snd (sendMessage world1 env_history_down ''sess_ABCDEFGH'' ''alice'' ''first''))
               env_history_down ''sess_ABCDEFGH'' ''alice'' ''second''))
       ''sess_ABCDEFGH'' = 1"
  by code_simp





text \<open>
  C10.  Every reply sendMessage returns carries the confidence 0.85, whatever the message,
  the search hits and their scores.
\<close>

theorem sendMessage_confidence:
  "fst (sendMessage w env sid uid msg) = Inr r \<Longrightarrow>
   map_option rm_confidence (cr_metadata r) = Some 0.85"
  by (auto simp: sendMessage_def sendMessage_try_def Let_def
           split: sum.splits option.splits if_splits)

theorem sendMessage_confidence_witness:
  "fst (sendMessage world1 env_ok ''sess_ABCDEFGH'' ''alice'' ''hello'') = Inr reply_ok
   \<and> map_option rm_confidence (cr_metadata reply_ok) = Some 0.85"
  using sendMessage_confidence [OF sendMessage_world1_env_ok] sendMessage_world1_env_ok by simp

section \<open>deleteSession\<close>

lemma deleteSession_no_effect:
  "snd (deleteSession w get_fails update_fails now sid uid) = w"
  by (auto simp: deleteSession_def getSession_def update_chat_session_def UpdateItem_def
        update_command_def Let_def map_upd_triv split: sum.splits option.splits if_splits)

text \<open>
  C7.  deleteSession is to leave the session inactive, after one call as after two.  The
  update it sends carries no update expression (the expression sits in a member the
  request does not have), so the store changes nothing: on a session of the caller both
  calls return without error, and the session is as active after them as before.
\<close>

theorem deleteSession_leaves_session_active:
  "deleteSession world1 False False 7 ''sess_ABCDEFGH'' ''alice'' = (Inr (), world1)
   \<and> deleteSession (snd (deleteSession world1 False False 7 ''sess_ABCDEFGH'' ''alice''))
        False False 8 ''sess_ABCDEFGH'' ''alice'' = (Inr (), world1)
   \<and> map_option cs_isActive (chat_sessions world1 ''sess_ABCDEFGH'') = Some True"
proof -
  have g: "getSession world1 False ''sess_ABCDEFGH'' ''alice'' = Inr session1"
    by (rule getSession_world1)
  have d: "deleteSession world1 False False t ''sess_ABCDEFGH'' ''alice'' = (Inr (), world1)"
    for t
    using deleteSession_no_effect [of world1 False False t "''sess_ABCDEFGH''" "''alice''"] g
    by (simp add: deleteSession_def prod_eq_iff)
  have a: "map_option cs_isActive (chat_sessions world1 ''sess_ABCDEFGH'') = Some True"
    by (simp add: world1_def session1_def)
  show ?thesis
    using d [of 7] d [of 8] a by simp
qed

section \<open>analyzeText\<close>

lemma prompt_ignores_context:
  "buildViolationAnalysisPrompt text c1 = buildViolationAnalysisPrompt text c2"
  by (simp add: buildViolationAnalysisPrompt_def)

text \<open>
  C9 (as amended).  The answer of the model goes through \<^verbatim>\<open>JSON.parse\<close> and nothing
  else.  When the model call throws, analyzeText fails with its error; when
  \<^verbatim>\<open>JSON.parse\<close> throws, analyzeText fails with the parse error and writes nothing (model
  and parser are consulted once); when the text parses to \<^verbatim>\<open>null\<close>, reading its members
  is a TypeError; any other parsed value is accepted, whatever its shape: the response
  holds what the value has under the four member names, \<^verbatim>\<open>undefined\<close> where it has
  nothing.  Whether the lookup of the document context and the write of the result fail
  or not makes no difference to what analyzeText returns.
\<close>

theorem analyzeText_parse_contract:
  "(a_invokeChat env [\<lparr>bm_role = User,
        bm_content = buildViolationAnalysisPrompt text
                       (buildAnalysisContext w env documentId metadata)\<rparr>] = None
     \<longrightarrow> analyzeText w env text documentId metadata = (Inl ChatInvocationFailed, w))
   \<and> (a_invokeChat env [\<lparr>bm_role = User,
        bm_content = buildViolationAnalysisPrompt text
                       (buildAnalysisContext w env documentId metadata)\<rparr>] = Some response
     \<longrightarrow> (a_JSON_parse env (br_content response) = None
            \<longrightarrow> analyzeText w env text documentId metadata = (Inl ParseFailed, w))
        \<and> (a_JSON_parse env (br_content response) = Some JNull
            \<longrightarrow> analyzeText w env text documentId metadata = (Inl TypeError, w))
        \<and> (\<forall>v. a_JSON_parse env (br_content response) = Some v \<and> v \<noteq> JNull
            \<longrightarrow> fst (analyzeText w env text documentId metadata)
                  = Inr \<lparr>ar_violations = projr (get_prop v ''violations''),
                         ar_summary = projr (get_prop v ''summary''),
                         ar_riskScore = projr (get_prop v ''riskScore''),
                         ar_recommendations = projr (get_prop v ''recommendations''),
                         ar_processingTime = a_processingTime env\<rparr>))
   \<and> fst (analyzeText w (env\<lparr>a_doc_get_fails := g, a_store_fails := st\<rparr>) text documentId
            metadata)
       = fst (analyzeText w env text documentId metadata)"
proof -
  let ?env = "env\<lparr>a_doc_get_fails := g, a_store_fails := st\<rparr>"
  have av: "analyzeViolations ?env text (buildAnalysisContext w ?env documentId metadata)
          = analyzeViolations env text (buildAnalysisContext w env documentId metadata)"
    using prompt_ignores_context
      [of "text" "buildAnalysisContext w ?env documentId metadata"
          "buildAnalysisContext w env documentId metadata"]
    by (simp add: analyzeViolations_def split: option.splits)
  have ind: "fst (analyzeText w ?env text documentId metadata)
       = fst (analyzeText w env text documentId metadata)"
    by (simp add: analyzeText_def Let_def av split: sum.splits)
  have ok: "fst (analyzeText w env text documentId metadata)
              = Inr \<lparr>ar_violations = projr (get_prop v ''violations''),
                     ar_summary = projr (get_prop v ''summary''),
                     ar_riskScore = projr (get_prop v ''riskScore''),
                     ar_recommendations = projr (get_prop v ''recommendations''),
                     ar_processingTime = a_processingTime env\<rparr>"
    if "a_invokeChat env [\<lparr>bm_role = User,
          bm_content = buildViolationAnalysisPrompt text
                         (buildAnalysisContext w env documentId metadata)\<rparr>] = Some response"
       "a_JSON_parse env (br_content response) = Some v" "v \<noteq> JNull" for v
    using that
    by (cases v) (simp_all add: analyzeText_def analyzeViolations_def Let_def)
  show ?thesis
    using ind ok by (simp add: analyzeText_def analyzeViolations_def Let_def)
qed

theorem analyzeText_parse_failure_witness:
  "a_JSON_parse aenv_prose ''Here is my analysis.'' = None
   \<and> analyzeText world1 aenv_prose ''Positive drug test detected'' None None
       = (Inl ParseFailed, world1)"
proof -
  have p: "a_JSON_parse aenv_prose ''Here is my analysis.'' = None"
    by (simp add: aenv_prose_def parse_example_def)
  have m: "a_invokeChat aenv_prose m
             = Some \<lparr>br_content = ''Here is my analysis.'', br_inputTokens = 300,
                     br_outputTokens = 5\<rparr>" for m
    by (simp add: aenv_prose_def model_prose_def)
  show ?thesis
    using analyzeText_parse_contract
      [of aenv_prose "''Positive drug test detected''" world1 None None
          "\<lparr>br_content = ''Here is my analysis.'', br_inputTokens = 300, br_outputTokens = 5\<rparr>"]
      p m by simp
qed

text \<open>
  C9 (as stated) fails: the answer \<^verbatim>\<open>{}\<close> is well-formed JSON of another shape than the
  documented one; it is not rejected, and analyzeText returns an analysis whose four
  members are undefined.
\<close>

theorem analyzeText_accepts_empty_object:
  "a_invokeChat aenv_empty_object
     [\<lparr>bm_role = User,
       bm_content = buildViolationAnalysisPrompt ''Positive drug test detected''
                      (buildAnalysisContext world1 aenv_empty_object None None)\<rparr>]
     = Some \<lparr>br_content = ''{}'', br_inputTokens = 300, br_outputTokens = 1\<rparr>
   \<and> analyzeText world1 aenv_empty_object ''Positive drug test detected'' None None
       = (Inr \<lparr>ar_violations = None, ar_summary = None, ar_riskScore = None,
               ar_recommendations = None, ar_processingTime = 25\<rparr>, world1)"
  by (simp add: analyzeText_def analyzeViolations_def Let_def aenv_empty_object_def
        model_empty_object_def parse_example_def truthy_def)

end
